theory Spec2Isabelle
  imports Main
begin

section \<open>The connection supervisor of server.js\<close>

text \<open>
  The service keeps one PostgreSQL client in three module-level variables
  (\<^verbatim>\<open>dbClient\<close>, \<^verbatim>\<open>isConnected\<close>, \<^verbatim>\<open>connectionRetries\<close>, lines 19-21) and
  touches them from four places: \<^verbatim>\<open>connectDB\<close> (41-85), the health handler (88-125),
  the query handler (128-180) and \<^verbatim>\<open>shutdown\<close> (191-202).

  All four are \<^verbatim>\<open>async\<close> functions. JavaScript runs such a function without
  interruption up to its next \<^verbatim>\<open>await\<close>; there it is suspended until the awaited
  promise settles, and other handlers may run in between. The model follows that: each
  function is cut at its \<^verbatim>\<open>await\<close>s into segments, every segment is a pure function
  from the state at its start to the state at its end, and the outcome of the awaited
  promise is an argument of the segment that follows it.
\<close>

subsection \<open>Data\<close>

text \<open>A client object is identified by the order in which \<^verbatim>\<open>new Client\<close> made it.\<close>

type_synonym client = nat

text \<open>
  The calls that leave the process, in the order the code makes them. One entry is not
  a call: \<open>ConnectSucceeded c\<close> stands where the awaited \<^verbatim>\<open>connect()\<close> of client
  \<open>c\<close> has resolved and lines 60-63 run (line 62 logs it).
\<close>

datatype event =
    ClientCreated client
  | EndCalled client
  | ConnectCalled client
  | ConnectSucceeded client
  | QueryCalled client string
  | TimerSet nat
  | ProcessExit nat

text \<open>
  The three variables of lines 19-21, with two observers added: the number of the next
  client object and the trace of calls made so far.
\<close>

record server =
  dbClient :: "client option"
  isConnected :: bool
  connectionRetries :: nat
  nextClient :: client
  events :: "event list"

definition MAX_RETRIES :: nat where
  "MAX_RETRIES = 5"

definition RETRY_DELAY :: nat where
  "RETRY_DELAY = 5000"

text \<open>The state when the module has been loaded (lines 19-21).\<close>

definition initial :: server where
  "initial = \<lparr>dbClient = None, isConnected = False, connectionRetries = 0,
     nextClient = 0, events = []\<rparr>"

text \<open>The triple the specification calls the connection state.\<close>

definition triple :: "server \<Rightarrow> bool \<times> nat \<times> client option" where
  "triple s = (isConnected s, connectionRetries s, dbClient s)"

text \<open>A JavaScript error object, as far as the handlers read it.\<close>

record js_error =
  err_message :: string
  err_code :: "string option"
  err_stack :: string

text \<open>How an awaited promise settles.\<close>

datatype 'a settled = Resolved 'a | Rejected js_error

definition emit :: "event \<Rightarrow> server \<Rightarrow> server" where
  "emit e s = s\<lparr>events := events s @ [e]\<rparr>"

subsection \<open>connectDB (lines 41-85)\<close>

text \<open>
  \<^verbatim>\<open>connectDB\<close> awaits in three places: the close of a stale client (47), the connect
  of the new client (59), and the retry timer (78). A suspended call is at one of them;
  at the second it holds the client whose \<^verbatim>\<open>connect()\<close> it awaits.
\<close>

datatype conn_pc = AwaitEnd | AwaitConnect client | AwaitDelay

datatype conn_status = Returned bool | Pending conn_pc

text \<open>
  Lines 50-59: \<^verbatim>\<open>createClient\<close> makes a new client object, the variable is
  overwritten with it, and its \<^verbatim>\<open>connect()\<close> is called and awaited. The connection
  parameters read from the environment (lines 27-38) play no part in the state machine
  and are left out.
\<close>

definition createClient :: "server \<Rightarrow> client \<times> server" where
  "createClient s =
     (nextClient s, emit (ClientCreated (nextClient s)) (s\<lparr>nextClient := Suc (nextClient s)\<rparr>))"

definition connectDB_open :: "server \<Rightarrow> conn_status \<times> server" where
  "connectDB_open s =
     (let (c, s1) = createClient s;
          s2 = s1\<lparr>dbClient := Some c\<rparr>
      in (Pending (AwaitConnect c), emit (ConnectCalled c) s2))"

text \<open>Lines 42-48: the call itself, up to its first \<^verbatim>\<open>await\<close>.\<close>

definition connectDB :: "server \<Rightarrow> conn_status \<times> server" where
  "connectDB s =
     (if isConnected s then (Returned True, s)
      else (case dbClient s of
              Some c \<Rightarrow> (Pending AwaitEnd, emit (EndCalled c) s)
            | None \<Rightarrow> connectDB_open s))"

text \<open>
  The segment after an \<^verbatim>\<open>await\<close>. After line 47 the outcome of \<^verbatim>\<open>end()\<close> is
  swallowed by \<^verbatim>\<open>.catch(() => {})\<close>. After line 59 a resolved connect runs lines 60-63
  and a rejected one runs the \<^verbatim>\<open>catch\<close> block, lines 64-84. After line 78 the timer's
  promise can only resolve, and line 79 calls \<^verbatim>\<open>connectDB\<close> again.
\<close>

definition connectDB_resume :: "conn_pc \<Rightarrow> unit settled \<Rightarrow> server \<Rightarrow> conn_status \<times> server" where
  "connectDB_resume pc r s =
     (case pc of
        AwaitEnd \<Rightarrow> connectDB_open s
      | AwaitConnect c \<Rightarrow>
          (case r of
             Resolved _ \<Rightarrow>
               (Returned True,
                emit (ConnectSucceeded c) (s\<lparr>isConnected := True, connectionRetries := 0\<rparr>))
           | Rejected _ \<Rightarrow>
               (let s1 = s\<lparr>isConnected := False, dbClient := None\<rparr>
                in if connectionRetries s1 < MAX_RETRIES
                   then (Pending AwaitDelay,
                         emit (TimerSet RETRY_DELAY)
                           (s1\<lparr>connectionRetries := Suc (connectionRetries s1)\<rparr>))
                   else (Returned False, s1)))
      | AwaitDelay \<Rightarrow> connectDB s)"

text \<open>
  One call of \<^verbatim>\<open>connectDB\<close> followed to the end of the settlements given, with nothing
  else running in between. A call that has returned ignores what is left.
\<close>

fun drive :: "unit settled list \<Rightarrow> conn_status \<times> server \<Rightarrow> conn_status \<times> server" where
  "drive [] k = k"
| "drive (r # rs) (Returned b, s) = (Returned b, s)"
| "drive (r # rs) (Pending pc, s) = drive rs (connectDB_resume pc r s)"

text \<open>
  A run of \<open>n\<close> connect attempts that all fail, seen from the call: each rejected
  \<^verbatim>\<open>connect()\<close> but the last is followed by the retry timer firing.
\<close>

fun failures :: "js_error \<Rightarrow> nat \<Rightarrow> unit settled list" where
  "failures e 0 = []"
| "failures e (Suc 0) = [Rejected e]"
| "failures e (Suc (Suc n)) = failures e (Suc n) @ [Resolved (), Rejected e]"


subsection \<open>HTTP responses\<close>

record health_env =
  nodeEnv :: "string option"
  port :: string
  dbHost :: "string option"
  dbName :: "string option"

record health_doc =
  status :: string
  uptime :: nat
  timestamp :: string
  database :: string
  databaseError :: "string option"
  environment :: health_env

record fallback_doc =
  f_status :: string
  f_error :: string
  f_timestamp :: string

record error_doc =
  error :: bool
  message :: string

record query_error_doc = error_doc +
  code :: "string option"
  detail :: "string option"

type_synonym row = "(string \<times> string) list"

record pg_field =
  field_name :: string
  dataTypeID :: nat

record pg_result =
  rows :: "row list"
  rowCount :: nat
  resultFields :: "pg_field list option"

datatype body =
    HealthDoc health_doc
  | FallbackDoc fallback_doc
  | ErrorDoc error_doc
  | QueryErrorDoc query_error_doc
  | RowsDoc "row list" nat "(string \<times> nat) list option"

record response =
  statusCode :: nat
  body :: body

text \<open>What a handler reads from \<^verbatim>\<open>process\<close> while it serves one request.\<close>

record process =
  p_uptime :: nat
  p_now :: string
  NODE_ENV :: "string option"
  PORT :: string
  PGHOST :: "string option"
  VITE_AZURE_DB_HOST :: "string option"
  PGDATABASE :: "string option"
  VITE_AZURE_DB_NAME :: "string option"

text \<open>JavaScript's \<^verbatim>\<open>a || b\<close> on environment variables: unset and empty are both falsy.\<close>

definition js_or :: "string option \<Rightarrow> string option \<Rightarrow> string option" where
  "js_or a b = (case a of None \<Rightarrow> b | Some x \<Rightarrow> if x = [] then b else a)"

text \<open>A handler segment either answers the request or stops at an \<^verbatim>\<open>await\<close>.\<close>

datatype 'k outcome = Replied response | Waiting 'k

text \<open>
  Calling a method on \<^verbatim>\<open>dbClient\<close> while the variable holds \<^verbatim>\<open>null\<close> throws a
  TypeError, which has no \<^verbatim>\<open>code\<close>. The wording of its message is the engine's.
\<close>

definition null_client_error :: js_error where
  "null_client_error = \<lparr>err_message = ''Cannot read properties of null'',
     err_code = None, err_stack = ''TypeError''\<rparr>"

subsection \<open>The health handler (lines 88-125)\<close>

text \<open>
  The source keeps the body of the handler and its closing lines (117-125); the line
  that registers it and opens the outer \<^verbatim>\<open>try\<close> stands before line 88. An exception
  reaches the outer \<^verbatim>\<open>catch\<close> (117-124) only from a statement outside the inner
  \<^verbatim>\<open>try\<close>: while the document is built (88-99) or while it is sent (116). Which of
  the two happens, if any, is an argument of the model.
\<close>

datatype fault = NoFault | ThrowBuild string | ThrowSend string

definition health_fallback :: "process \<Rightarrow> string \<Rightarrow> response" where
  "health_fallback p m =
     \<lparr>statusCode = 200,
      body = FallbackDoc \<lparr>f_status = ''degraded'', f_error = m, f_timestamp = p_now p\<rparr>\<rparr>"

text \<open>Line 116, and lines 117-124 when it throws.\<close>

definition health_send :: "process \<Rightarrow> fault \<Rightarrow> health_doc \<Rightarrow> response" where
  "health_send p f h =
     (case f of
        ThrowSend m \<Rightarrow> health_fallback p m
      | _ \<Rightarrow> \<lparr>statusCode = 200, body = HealthDoc h\<rparr>)"

text \<open>
  Lines 105-112, then 116. The call of \<^verbatim>\<open>connectDB\<close> in line 111 is not awaited: the
  handler goes on with whatever that call left behind, and the call's status is handed
  out in the second component.
\<close>

definition health_probe_failed ::
  "process \<Rightarrow> fault \<Rightarrow> health_doc \<Rightarrow> js_error \<Rightarrow> server \<Rightarrow> response \<times> conn_status list \<times> server" where
  "health_probe_failed p f h e s =
     (let h1 = h\<lparr>database := ''error'', databaseError := Some (err_message e)\<rparr>;
          (st, s1) = connectDB s
      in (health_send p f h1, [st], s1))"

text \<open>Lines 88-103: up to the \<^verbatim>\<open>await\<close> of the probe, or to the answer.\<close>

definition health_handler_begin ::
  "process \<Rightarrow> fault \<Rightarrow> server \<Rightarrow> health_doc outcome \<times> conn_status list \<times> server" where
  "health_handler_begin p f s =
     (case f of
        ThrowBuild m \<Rightarrow> (Replied (health_fallback p m), [], s)
      | _ \<Rightarrow>
         (let h = \<lparr>status = ''healthy'', uptime = p_uptime p, timestamp = p_now p,
                   database = (if isConnected s then ''connected'' else ''disconnected''),
                   databaseError = None,
                   environment = \<lparr>nodeEnv = NODE_ENV p, port = PORT p,
                     dbHost = js_or (PGHOST p) (VITE_AZURE_DB_HOST p),
                     dbName = js_or (PGDATABASE p) (VITE_AZURE_DB_NAME p)\<rparr>\<rparr>
          in if isConnected s
             then (case dbClient s of
                     Some c \<Rightarrow> (Waiting h, [], emit (QueryCalled c ''SELECT 1'') s)
                   | None \<Rightarrow>
                       (let (r, sp, s1) = health_probe_failed p f h null_client_error s
                        in (Replied r, sp, s1)))
             else (Replied (health_send p f h), [], s)))"

text \<open>Lines 104-116: after the probe has settled.\<close>

definition health_handler_resume ::
  "process \<Rightarrow> fault \<Rightarrow> health_doc \<Rightarrow> unit settled \<Rightarrow> server \<Rightarrow> response \<times> conn_status list \<times> server" where
  "health_handler_resume p f h r s =
     (case r of
        Resolved _ \<Rightarrow> (health_send p f (h\<lparr>database := ''connected''\<rparr>), [], s)
      | Rejected e \<Rightarrow> health_probe_failed p f h e s)"

text \<open>One health request served with nothing else running during its \<^verbatim>\<open>await\<close>.\<close>

definition health_handler ::
  "process \<Rightarrow> fault \<Rightarrow> unit settled \<Rightarrow> server \<Rightarrow> response \<times> conn_status list \<times> server" where
  "health_handler p f r s =
     (case health_handler_begin p f s of
        (Replied a, sp, s1) \<Rightarrow> (a, sp, s1)
      | (Waiting h, sp, s1) \<Rightarrow>
          (let (a, sp2, s2) = health_handler_resume p f h r s1 in (a, sp @ sp2, s2)))"

subsection \<open>The query handler (lines 128-180)\<close>

text \<open>
  The parsed JSON body of the request. \<^verbatim>\<open>text\<close> is a string or absent; \<^verbatim>\<open>!text\<close>
  in line 139 holds for the absent and for the empty one.
\<close>

record query_body =
  q_text :: "string option"
  q_params :: "string list"

text \<open>Lines 160-179, the \<^verbatim>\<open>catch\<close> block. Line 170 calls \<^verbatim>\<open>connectDB\<close> without awaiting it.\<close>

definition query_catch ::
  "process \<Rightarrow> js_error \<Rightarrow> server \<Rightarrow> response \<times> conn_status list \<times> server" where
  "query_catch p e s =
     (let (sp, s1) =
            (if err_code e = Some ''ECONNRESET'' \<or> err_code e = Some ''57P01''
             then (let (st, s2) = connectDB (s\<lparr>isConnected := False\<rparr>) in ([st], s2))
             else ([], s))
      in (\<lparr>statusCode = 500,
           body = QueryErrorDoc
             \<lparr>error = True, message = err_message e, code = err_code e,
              detail = (if NODE_ENV p = Some ''development'' then Some (err_stack e) else None)\<rparr>\<rparr>,
          sp, s1))"

text \<open>Lines 129-149: up to the \<^verbatim>\<open>await\<close> of the query, or to the answer.\<close>

definition query_handler_begin ::
  "process \<Rightarrow> query_body \<Rightarrow> server \<Rightarrow> unit outcome \<times> conn_status list \<times> server" where
  "query_handler_begin p b s =
     (if \<not> isConnected s
      then (Replied \<lparr>statusCode = 503,
              body = ErrorDoc \<lparr>error = True, message = ''Database not connected''\<rparr>\<rparr>, [], s)
      else (case q_text b of
              None \<Rightarrow>
                (Replied \<lparr>statusCode = 400,
                   body = ErrorDoc \<lparr>error = True, message = ''Query text is required''\<rparr>\<rparr>, [], s)
            | Some t \<Rightarrow>
                if t = []
                then (Replied \<lparr>statusCode = 400,
                        body = ErrorDoc \<lparr>error = True, message = ''Query text is required''\<rparr>\<rparr>,
                      [], s)
                else (case dbClient s of
                        Some c \<Rightarrow> (Waiting (), [], emit (QueryCalled c t) s)
                      | None \<Rightarrow>
                          (let (r, sp, s1) = query_catch p null_client_error s
                           in (Replied r, sp, s1)))))"

text \<open>Lines 150-159 when the query resolved, the \<^verbatim>\<open>catch\<close> block when it was rejected.\<close>

definition query_handler_resume ::
  "process \<Rightarrow> pg_result settled \<Rightarrow> server \<Rightarrow> response \<times> conn_status list \<times> server" where
  "query_handler_resume p r s =
     (case r of
        Resolved res \<Rightarrow>
          (\<lparr>statusCode = 200,
            body = RowsDoc (rows res) (rowCount res)
              (map_option (map (\<lambda>f. (field_name f, dataTypeID f))) (resultFields res))\<rparr>,
           [], s)
      | Rejected e \<Rightarrow> query_catch p e s)"

text \<open>One query request served with nothing else running during its \<^verbatim>\<open>await\<close>.\<close>

definition query_handler ::
  "process \<Rightarrow> query_body \<Rightarrow> pg_result settled \<Rightarrow> server \<Rightarrow> response \<times> conn_status list \<times> server" where
  "query_handler p b r s =
     (case query_handler_begin p b s of
        (Replied a, sp, s1) \<Rightarrow> (a, sp, s1)
      | (Waiting _, sp, s1) \<Rightarrow>
          (let (a, sp2, s2) = query_handler_resume p r s1 in (a, sp @ sp2, s2)))"

subsection \<open>shutdown (lines 191-202)\<close>

text \<open>
  The handler of SIGTERM and SIGINT. It awaits \<^verbatim>\<open>dbClient.end()\<close> when the variable
  holds a client; a rejection is logged (197-199). Line 201 ends the process.
\<close>

datatype exit_status = Running | Exited nat

definition shutdown_begin :: "server \<Rightarrow> exit_status \<times> server" where
  "shutdown_begin s =
     (case dbClient s of
        Some c \<Rightarrow> (Running, emit (EndCalled c) s)
      | None \<Rightarrow> (Exited 0, emit (ProcessExit 0) s))"

definition shutdown_resume :: "unit settled \<Rightarrow> server \<Rightarrow> exit_status \<times> server" where
  "shutdown_resume r s =
     (case r of
        Resolved _ \<Rightarrow> (Exited 0, emit (ProcessExit 0) s)
      | Rejected _ \<Rightarrow> (Exited 0, emit (ProcessExit 0) s))"

definition shutdown :: "unit settled \<Rightarrow> server \<Rightarrow> exit_status \<times> server" where
  "shutdown r s =
     (case shutdown_begin s of
        (Running, s1) \<Rightarrow> shutdown_resume r s1
      | (Exited n, s1) \<Rightarrow> (Exited n, s1))"

text \<open>The calls in a trace that go to the database server.\<close>

fun network_call :: "event \<Rightarrow> bool" where
  "network_call (EndCalled _) = True"
| "network_call (ConnectCalled _) = True"
| "network_call (QueryCalled _ _) = True"
| "network_call _ = False"

subsection \<open>Notions used to state the properties\<close>

text \<open>
  The calls that \<open>n\<close> failed attempts add to the trace when the first of them uses
  client \<open>c\<close>: each attempt makes its client, calls \<^verbatim>\<open>connect()\<close> on it and, once
  that has failed, sets the retry timer.
\<close>

definition retry_trace :: "client \<Rightarrow> nat \<Rightarrow> event list" where
  "retry_trace c n =
     concat (map (\<lambda>i. [ClientCreated (c + i), ConnectCalled (c + i), TimerSet 5000]) [0..<n])"

text \<open>
  A call made while a stale client is held first awaits the close of that client
  (lines 45-48); its settlement then stands before the others, and the close before the
  other calls.
\<close>

definition closing :: "unit settled \<Rightarrow> server \<Rightarrow> unit settled list" where
  "closing r s = (case dbClient s of None \<Rightarrow> [] | Some c \<Rightarrow> [r])"

definition closing_trace :: "server \<Rightarrow> event list" where
  "closing_trace s = (case dbClient s of None \<Rightarrow> [] | Some c \<Rightarrow> [EndCalled c])"

definition after_failures :: "nat \<Rightarrow> server \<Rightarrow> server" where
  "after_failures n s =
     s\<lparr>dbClient := None, isConnected := False,
       connectionRetries := connectionRetries s + n,
       nextClient := nextClient s + n,
       events := events s @ retry_trace (nextClient s) n\<rparr>"

text \<open>
  The document's \<^verbatim>\<open>status\<close> field, for the two kinds of body the health handler
  sends.
\<close>

fun status_field :: "body \<Rightarrow> string option" where
  "status_field (HealthDoc d) = Some (status d)"
| "status_field (FallbackDoc d) = Some (f_status d)"
| "status_field _ = None"

text \<open>What a health document says beside its \<^verbatim>\<open>status\<close> and \<^verbatim>\<open>database\<close> fields.\<close>

fun other_fields :: "body \<Rightarrow> (nat \<times> string \<times> string option \<times> health_env) option" where
  "other_fields (HealthDoc d) = Some (uptime d, timestamp d, databaseError d, environment d)"
| "other_fields _ = None"



subsection \<open>Concrete inputs\<close>

definition refused :: js_error where
  "refused = \<lparr>err_message = ''connect ECONNREFUSED'', err_code = Some ''ECONNREFUSED'',
     err_stack = ''Error: connect ECONNREFUSED''\<rparr>"

definition reset :: js_error where
  "reset = \<lparr>err_message = ''read ECONNRESET'', err_code = Some ''ECONNRESET'',
     err_stack = ''Error: read ECONNRESET''\<rparr>"

definition production :: process where
  "production = \<lparr>p_uptime = 42, p_now = ''2024-01-01T00:00:00.000Z'',
     NODE_ENV = Some ''production'', PORT = ''8080'', PGHOST = Some ''db.example'',
     VITE_AZURE_DB_HOST = None, PGDATABASE = None, VITE_AZURE_DB_NAME = Some ''tenders''\<rparr>"

text \<open>The state after the first connect attempt of a fresh process has succeeded.\<close>

definition connected0 :: server where
  "connected0 = snd (drive [Resolved ()] (connectDB initial))"

text \<open>The state a fresh process is left in when all six attempts of its first call failed.\<close>

definition exhausted0 :: server where
  "exhausted0 = snd (drive (failures refused 6) (connectDB initial))"

text \<open>
  Two calls of \<^verbatim>\<open>connectDB\<close> side by side. In the state a successful first connect
  leaves, two query requests are in flight on client 0 and both are rejected with
  \<^verbatim>\<open>ECONNRESET\<close>: each \<^verbatim>\<open>catch\<close> block calls \<^verbatim>\<open>connectDB\<close> (line 170), and both
  calls stop at the close of client 0.
\<close>

definition select_now :: query_body where
  "select_now = \<lparr>q_text = Some ''SELECT now()'', q_params = []\<rparr>"

definition both_failed :: server where
  "both_failed =
     snd (snd (query_handler_resume production (Rejected reset)
       (snd (snd (query_handler_resume production (Rejected reset)
         (snd (snd (query_handler_begin production select_now
           (snd (snd (query_handler_begin production select_now connected0)))))))))))"

text \<open>
  Then the two calls go on in turn: each makes its client and calls \<^verbatim>\<open>connect()\<close>
  on it (clients 1 and 2); the connect of client 1 is rejected, and after it the connect
  of client 2 resolves.
\<close>

definition both_connecting :: server where
  "both_connecting =
     snd (connectDB_resume AwaitEnd (Resolved ())
       (snd (connectDB_resume AwaitEnd (Resolved ()) both_failed)))"

definition raced :: server where
  "raced =
     snd (connectDB_resume (AwaitConnect 2) (Resolved ())
       (snd (connectDB_resume (AwaitConnect 1) (Rejected refused) both_connecting)))"

section \<open>Properties\<close>

subsection \<open>Following a call of connectDB\<close>

lemma drive_Returned: "drive rs (Returned b, s) = (Returned b, s)"
  by (cases rs) simp_all

lemma drive_append: "drive (xs @ ys) k = drive ys (drive xs k)"
proof (induction xs arbitrary: k)
  case Nil
  show ?case by simp
next
  case (Cons x xs)
  obtain st s where k: "k = (st, s)" by (cases k)
  show ?case
    by (cases st) (simp_all add: k Cons.IH drive_Returned)
qed

lemma failures_Suc: "0 < n \<Longrightarrow> failures e (Suc n) = failures e n @ [Resolved (), Rejected e]"
  by (cases n) simp_all

lemmas conn_defs = connectDB_def connectDB_open_def createClient_def emit_def
  connectDB_resume_def

lemma open_first_failure:
  assumes "connectionRetries s < MAX_RETRIES"
  shows "drive [Rejected e] (connectDB_open s) = (Pending AwaitDelay, after_failures 1 s)"
  using assms
  by (simp add: conn_defs RETRY_DELAY_def after_failures_def retry_trace_def)

lemma open_next_failure:
  assumes "connectionRetries s + n < MAX_RETRIES"
  shows "drive [Resolved (), Rejected e] (Pending AwaitDelay, after_failures n s)
     = (Pending AwaitDelay, after_failures (Suc n) s)"
  using assms
  by (simp add: conn_defs RETRY_DELAY_def after_failures_def retry_trace_def)

lemma open_failures:
  "0 < n \<Longrightarrow> connectionRetries s + n \<le> MAX_RETRIES \<Longrightarrow>
     drive (failures e n) (connectDB_open s) = (Pending AwaitDelay, after_failures n s)"
proof (induction n)
  case 0
  then show ?case by simp
next
  case (Suc n)
  show ?case
  proof (cases "n = 0")
    case True
    with Suc.prems show ?thesis using open_first_failure [of s e] by simp
  next
    case False
    with Suc show ?thesis
      by (simp add: failures_Suc drive_append open_next_failure del: drive.simps)
  qed
qed

lemma open_last_failure:
  assumes "connectionRetries s + n = MAX_RETRIES"
  shows "drive (failures e (Suc n) @ rs) (connectDB_open s)
     = (Returned False, (after_failures n s)
          \<lparr>nextClient := Suc (nextClient s + n),
           events := events s @ retry_trace (nextClient s) n @
             [ClientCreated (nextClient s + n), ConnectCalled (nextClient s + n)]\<rparr>)"
proof (cases "n = 0")
  case True
  with assms show ?thesis
    by (simp add: conn_defs after_failures_def retry_trace_def drive_Returned)
next
  case False
  then have "drive (failures e (Suc n) @ rs) (connectDB_open s)
      = drive ([Resolved (), Rejected e] @ rs) (drive (failures e n) (connectDB_open s))"
    by (simp only: failures_Suc drive_append append_assoc)
  also have "\<dots> = drive ([Resolved (), Rejected e] @ rs) (Pending AwaitDelay, after_failures n s)"
    using False assms open_failures [of n s e] by simp
  also have "\<dots> = (Returned False, (after_failures n s)
          \<lparr>nextClient := Suc (nextClient s + n),
           events := events s @ retry_trace (nextClient s) n @
             [ClientCreated (nextClient s + n), ConnectCalled (nextClient s + n)]\<rparr>)"
    using assms by (simp add: conn_defs after_failures_def drive_Returned)
  finally show ?thesis .
qed

lemma connectDB_stale:
  assumes "\<not> isConnected s"
  shows "drive (closing r s @ rs) (connectDB s)
     = drive rs (connectDB_open (s\<lparr>events := events s @ closing_trace s\<rparr>))"
  using assms
  by (cases "dbClient s")
     (simp_all add: connectDB_def connectDB_resume_def emit_def closing_def closing_trace_def)




lemma exhausted0_eq:
  "exhausted0 = \<lparr>dbClient = None, isConnected = False, connectionRetries = 5, nextClient = 6,
     events = retry_trace 0 5 @ [ClientCreated 5, ConnectCalled 5]\<rparr>"
proof -
  have "drive (failures refused (Suc 5) @ []) (connectDB_open initial)
      = (Returned False, (after_failures 5 initial)
          \<lparr>nextClient := Suc (nextClient initial + 5),
           events := events initial @ retry_trace (nextClient initial) 5 @
             [ClientCreated (nextClient initial + 5), ConnectCalled (nextClient initial + 5)]\<rparr>)"
    by (rule open_last_failure) (simp add: initial_def MAX_RETRIES_def)
  moreover have "connectDB initial = connectDB_open initial"
    by (simp add: connectDB_def initial_def)
  moreover have "Suc 5 = 6"
    by simp
  ultimately show ?thesis
    by (simp add: exhausted0_def after_failures_def initial_def)
qed

text \<open>
  Claim C4. A connect that succeeds sets the counter to 0 whatever it was. No other
  segment of the program lowers it: the call of \<^verbatim>\<open>connectDB\<close>, its segments after the
  close and after the timer, every segment of the health handler, of the query handler
  and of \<^verbatim>\<open>shutdown\<close> leave it as it is, and a failed connect adds one below
  \<^verbatim>\<open>MAX_RETRIES\<close> and leaves it at \<^verbatim>\<open>MAX_RETRIES\<close>. So a call made later with the
  counter at \<open>k\<close> goes on from \<open>k\<close>: when all its attempts fail it makes
  \<open>MAX_RETRIES - k + 1\<close> of them, sets \<open>MAX_RETRIES - k\<close> timers and returns \<^verbatim>\<open>false\<close>
  with the counter at \<^verbatim>\<open>MAX_RETRIES\<close>; after exhaustion that is one attempt and no
  timer.
\<close>

theorem retry_counter_reset:
  "connectionRetries (snd (connectDB_resume (AwaitConnect c) (Resolved ()) s)) = 0 \<and>
   connectionRetries (snd (connectDB s)) = connectionRetries s \<and>
   connectionRetries (snd (connectDB_resume AwaitEnd r s)) = connectionRetries s \<and>
   connectionRetries (snd (connectDB_resume AwaitDelay r s)) = connectionRetries s \<and>
   connectionRetries (snd (connectDB_resume (AwaitConnect c) (Rejected e) s))
     = (if connectionRetries s < MAX_RETRIES then Suc (connectionRetries s)
        else connectionRetries s) \<and>
   connectionRetries (snd (snd (health_handler_begin p f s))) = connectionRetries s \<and>
   connectionRetries (snd (snd (health_handler_resume p f h r s))) = connectionRetries s \<and>
   connectionRetries (snd (snd (query_handler_begin p b s))) = connectionRetries s \<and>
   connectionRetries (snd (snd (query_handler_resume p qr s))) = connectionRetries s \<and>
   connectionRetries (snd (shutdown_begin s)) = connectionRetries s \<and>
   connectionRetries (snd (shutdown_resume r s)) = connectionRetries s \<and>
   (\<not> isConnected s \<and> connectionRetries s \<le> MAX_RETRIES \<longrightarrow>
     (case drive (closing r s @ failures e (Suc (MAX_RETRIES - connectionRetries s)) @ rs)
             (connectDB s)
      of (st, s') \<Rightarrow>
        st = Returned False \<and> connectionRetries s' = MAX_RETRIES \<and>
        events s' = events s @ closing_trace s @
          retry_trace (nextClient s) (MAX_RETRIES - connectionRetries s) @
          [ClientCreated (nextClient s + (MAX_RETRIES - connectionRetries s)),
           ConnectCalled (nextClient s + (MAX_RETRIES - connectionRetries s))]))"
proof -
  have cdb: "connectionRetries (snd (connectDB x)) = connectionRetries x" for x
    by (simp add: conn_defs split: option.splits)
  have 1: "connectionRetries (snd (connectDB_resume (AwaitConnect c) (Resolved ()) s)) = 0"
    by (simp add: conn_defs)
  have 3: "connectionRetries (snd (connectDB_resume AwaitEnd r s)) = connectionRetries s"
    by (simp add: conn_defs)
  have 4: "connectionRetries (snd (connectDB_resume AwaitDelay r s)) = connectionRetries s"
    by (simp add: connectDB_resume_def cdb)
  have 5: "connectionRetries (snd (connectDB_resume (AwaitConnect c) (Rejected e) s))
     = (if connectionRetries s < MAX_RETRIES then Suc (connectionRetries s)
        else connectionRetries s)"
    by (simp add: conn_defs)
  have hpf: "connectionRetries (snd (snd (health_probe_failed p f' h' e' x))) = connectionRetries x"
    for f' h' e' x
    by (simp add: health_probe_failed_def cdb case_prod_beta)
  have 6: "connectionRetries (snd (snd (health_handler_begin p f s))) = connectionRetries s"
    by (simp add: health_handler_begin_def emit_def Let_def hpf case_prod_beta
        split: fault.splits option.splits)
  have 7: "connectionRetries (snd (snd (health_handler_resume p f h r s))) = connectionRetries s"
    by (simp add: health_handler_resume_def hpf split: settled.splits)
  have qc: "connectionRetries (snd (snd (query_catch p e' x))) = connectionRetries x" for e' x
    by (simp add: query_catch_def cdb case_prod_beta)
  have 8: "connectionRetries (snd (snd (query_handler_begin p b s))) = connectionRetries s"
    by (simp add: query_handler_begin_def emit_def qc case_prod_beta split: option.splits)
  have 9: "connectionRetries (snd (snd (query_handler_resume p qr s))) = connectionRetries s"
    by (simp add: query_handler_resume_def qc split: settled.splits)
  have 10: "connectionRetries (snd (shutdown_begin s)) = connectionRetries s"
    by (simp add: shutdown_begin_def emit_def split: option.splits)
  have 11: "connectionRetries (snd (shutdown_resume r s)) = connectionRetries s"
    by (simp add: shutdown_resume_def emit_def split: settled.splits)
  have 12: "case drive (closing r s @ failures e (Suc (MAX_RETRIES - connectionRetries s)) @ rs)
             (connectDB s)
      of (st, s') \<Rightarrow>
        st = Returned False \<and> connectionRetries s' = MAX_RETRIES \<and>
        events s' = events s @ closing_trace s @
          retry_trace (nextClient s) (MAX_RETRIES - connectionRetries s) @
          [ClientCreated (nextClient s + (MAX_RETRIES - connectionRetries s)),
           ConnectCalled (nextClient s + (MAX_RETRIES - connectionRetries s))]"
    if nc: "\<not> isConnected s" and le: "connectionRetries s \<le> MAX_RETRIES"
  proof -
    let ?s0 = "s\<lparr>events := events s @ closing_trace s\<rparr>"
    let ?n = "MAX_RETRIES - connectionRetries s"
    have "connectionRetries ?s0 + ?n = MAX_RETRIES"
      using le by simp
    from open_last_failure [OF this, of e rs] show ?thesis
      using le by (simp only: connectDB_stale [OF nc]) (simp add: after_failures_def)
  qed
  show ?thesis
    by (intro conjI impI 1 cdb 3 4 5 6 7 8 9 10 11 12) simp_all
qed

theorem retry_counter_reset_witness:
  "\<not> isConnected exhausted0 \<and> connectionRetries exhausted0 \<le> MAX_RETRIES \<and>
   (case drive [Rejected refused] (connectDB exhausted0) of (st, s') \<Rightarrow>
      st = Returned False \<and> connectionRetries s' = 5 \<and>
      events s' = events exhausted0 @ [ClientCreated 6, ConnectCalled 6])"
  using retry_counter_reset [where s = exhausted0 and e = refused
      and r = "Resolved ()" and rs = "[]"]
  by (simp add: exhausted0_eq MAX_RETRIES_def retry_trace_def closing_def closing_trace_def)

subsection \<open>The handlers\<close>

lemmas health_defs = health_handler_def health_handler_begin_def health_handler_resume_def
  health_probe_failed_def health_send_def health_fallback_def

lemmas query_defs = query_handler_def query_handler_begin_def query_handler_resume_def
  query_catch_def

text \<open>
  Claim C2. When the awaited query is rejected with code \<^verbatim>\<open>ECONNRESET\<close> or
  \<^verbatim>\<open>57P01\<close>, the last segment of the query handler, from whatever state it starts,
  leaves the flag down, has called \<^verbatim>\<open>connectDB\<close> once, and answers 500 with the
  error's message and code. The one call is still pending when the handler answers: it
  waits for the close of the stale client, or for the connect of a new one when the
  variable held none. For a request served from a connected state, begin to end, the
  trace gains the query and the close of the stale client, in that order.
\<close>

theorem fatal_query_error:
  assumes "err_code e = Some ''ECONNRESET'' \<or> err_code e = Some ''57P01''"
  shows "(case query_handler_resume p (Rejected e) s of (a, sp, s') \<Rightarrow>
            \<not> isConnected s' \<and>
            sp = [Pending (case dbClient s of None \<Rightarrow> AwaitConnect (nextClient s)
                           | Some c \<Rightarrow> AwaitEnd)] \<and>
            a = \<lparr>statusCode = 500,
                 body = QueryErrorDoc
                   \<lparr>error = True, message = err_message e, code = err_code e,
                    detail = (if NODE_ENV p = Some ''development'' then Some (err_stack e)
                              else None)\<rparr>\<rparr>) \<and>
         (isConnected s \<and> dbClient s = Some c \<and> q_text b = Some t \<and> t \<noteq> [] \<longrightarrow>
            (case query_handler p b (Rejected e) s of (a, sp, s') \<Rightarrow>
               \<not> isConnected s' \<and> sp = [Pending AwaitEnd] \<and> statusCode a = 500 \<and>
               events s' = events s @ [QueryCalled c t, EndCalled c]))"
  using assms
  by (auto simp add: query_defs conn_defs split: option.splits)

theorem fatal_query_error_witness:
  "(err_code reset = Some ''ECONNRESET'' \<or> err_code reset = Some ''57P01'') \<and>
   isConnected connected0 \<and> dbClient connected0 = Some 0 \<and>
   (case query_handler production \<lparr>q_text = Some ''SELECT now()'', q_params = []\<rparr>
           (Rejected reset) connected0 of (a, sp, s') \<Rightarrow>
      \<not> isConnected s' \<and> sp = [Pending AwaitEnd] \<and> statusCode a = 500 \<and>
      events s' = events connected0 @ [QueryCalled 0 ''SELECT now()'', EndCalled 0])"
  using fatal_query_error [where e = reset and s = connected0 and c = 0
      and b = "\<lparr>q_text = Some ''SELECT now()'', q_params = []\<rparr>" and t = "''SELECT now()''"
      and p = production]
  by (simp add: reset_def connected0_def initial_def conn_defs)

text \<open>
  Claim C5. While the flag is down, a query request is answered 503 with
  \<^verbatim>\<open>{error: true, message: 'Database not connected'}\<close> in its first segment. The
  state is the one it started from, trace included, so nothing was sent to the database;
  and \<^verbatim>\<open>connectDB\<close> was not called.
\<close>

theorem query_when_disconnected:
  assumes "\<not> isConnected s"
  shows "query_handler_begin p b s =
           (Replied \<lparr>statusCode = 503,
              body = ErrorDoc \<lparr>error = True, message = ''Database not connected''\<rparr>\<rparr>, [], s) \<and>
         query_handler p b r s =
           (\<lparr>statusCode = 503,
             body = ErrorDoc \<lparr>error = True, message = ''Database not connected''\<rparr>\<rparr>, [], s)"
  using assms by (simp add: query_defs)

theorem query_when_disconnected_witness:
  "\<not> isConnected initial \<and>
   query_handler production \<lparr>q_text = Some ''SELECT 1'', q_params = []\<rparr> (Rejected reset) initial =
     (\<lparr>statusCode = 503,
       body = ErrorDoc \<lparr>error = True, message = ''Database not connected''\<rparr>\<rparr>, [], initial)"
  using query_when_disconnected [of initial production
      "\<lparr>q_text = Some ''SELECT 1'', q_params = []\<rparr>" "Rejected reset"]
  by (simp add: initial_def)

text \<open>
  Claim C8, as stated, fails: the test of the flag (line 129) stands before the test of
  the text (line 139). A request with the empty text that reaches a fresh process, whose
  flag is down, is answered 503.
\<close>

theorem empty_text_counterexample:
  "statusCode (fst (query_handler production \<lparr>q_text = Some [], q_params = []\<rparr>
      (Rejected reset) initial)) = 503"
  by (simp add: query_defs initial_def)

text \<open>
  Claim C8, amended. A query request whose text is the empty string is answered 400
  with \<^verbatim>\<open>{error: true, message: 'Query text is required'}\<close> while the flag is up, and
  503 with \<^verbatim>\<open>{error: true, message: 'Database not connected'}\<close> while it is down. In
  both cases \<^verbatim>\<open>connectDB\<close> is not called and the state, so the triple of flag, counter
  and client, is the one the request found.
\<close>

theorem empty_text_rejected:
  assumes "q_text b = Some []"
  shows "query_handler p b r s =
           (if isConnected s
            then \<lparr>statusCode = 400,
                   body = ErrorDoc \<lparr>error = True, message = ''Query text is required''\<rparr>\<rparr>
            else \<lparr>statusCode = 503,
                   body = ErrorDoc \<lparr>error = True, message = ''Database not connected''\<rparr>\<rparr>,
            [], s) \<and>
         triple (snd (snd (query_handler p b r s))) = triple s"
  using assms by (simp add: query_defs)

theorem empty_text_rejected_witness:
  "q_text \<lparr>q_text = Some [], q_params = []\<rparr> = Some [] \<and> isConnected connected0 \<and>
   query_handler production \<lparr>q_text = Some [], q_params = []\<rparr> (Rejected reset) connected0 =
     (\<lparr>statusCode = 400,
       body = ErrorDoc \<lparr>error = True, message = ''Query text is required''\<rparr>\<rparr>, [], connected0)"
  using empty_text_rejected [of "\<lparr>q_text = Some [], q_params = []\<rparr>" production
      "Rejected reset" connected0]
  by (simp add: connected0_def initial_def conn_defs)

text \<open>
  Claim C6, as stated, fails in one detail: the three cases differ in more than
  \<^verbatim>\<open>status\<close> and \<^verbatim>\<open>database\<close>. Line 108 adds the field \<^verbatim>\<open>databaseError\<close> when
  the probe fails, so in the state a successful first connect leaves, the answer to a
  failed probe and the answer to a successful one differ outside those two fields.
\<close>

theorem health_bodies_counterexample:
  "other_fields (body (fst (health_handler production NoFault (Rejected reset) connected0)))
     \<noteq> other_fields (body (fst (health_handler production NoFault (Resolved ()) connected0)))"
  by (simp add: health_defs conn_defs connected0_def initial_def reset_def)

text \<open>
  Claim C6, amended. Every answer of the health handler has status 200: the answer of a
  request served begin to end, the answer its second segment gives from any state, and
  the answer its first segment gives when it does not stop at the probe. With the flag
  up and the probe resolved, with the flag down, and with the flag up and the probe
  rejected, the body is the same document but for \<^verbatim>\<open>database\<close>, which reads
  \<^verbatim>\<open>connected\<close>, \<^verbatim>\<open>disconnected\<close> and \<^verbatim>\<open>error\<close>, and for \<^verbatim>\<open>databaseError\<close>,
  which only the third case has; \<^verbatim>\<open>status\<close> reads \<^verbatim>\<open>healthy\<close> in all three. When the
  handler itself throws, while it builds the document or while it sends it, the answer
  is still 200, with the body \<^verbatim>\<open>{status: 'degraded', error, timestamp}\<close>.
\<close>

theorem health_always_200:
  "statusCode (fst (health_handler p f r s)) = 200 \<and>
   statusCode (fst (health_handler_resume p f h r s)) = 200 \<and>
   (case fst (health_handler_begin p f s) of Replied a \<Rightarrow> statusCode a = 200 | Waiting _ \<Rightarrow> True) \<and>
   (let d = \<lparr>status = ''healthy'', uptime = p_uptime p, timestamp = p_now p,
              database = ''connected'', databaseError = None,
              environment = \<lparr>nodeEnv = NODE_ENV p, port = PORT p,
                dbHost = js_or (PGHOST p) (VITE_AZURE_DB_HOST p),
                dbName = js_or (PGDATABASE p) (VITE_AZURE_DB_NAME p)\<rparr>\<rparr>
    in fst (health_handler p NoFault (Resolved ()) (s\<lparr>isConnected := True, dbClient := Some c\<rparr>))
         = \<lparr>statusCode = 200, body = HealthDoc d\<rparr> \<and>
       fst (health_handler p NoFault r (s\<lparr>isConnected := False\<rparr>))
         = \<lparr>statusCode = 200, body = HealthDoc (d\<lparr>database := ''disconnected''\<rparr>)\<rparr> \<and>
       fst (health_handler p NoFault (Rejected e) (s\<lparr>isConnected := True, dbClient := Some c\<rparr>))
         = \<lparr>statusCode = 200,
            body = HealthDoc (d\<lparr>database := ''error'', databaseError := Some (err_message e)\<rparr>)\<rparr>) \<and>
   fst (health_handler p (ThrowBuild m) r s)
     = \<lparr>statusCode = 200,
        body = FallbackDoc \<lparr>f_status = ''degraded'', f_error = m, f_timestamp = p_now p\<rparr>\<rparr> \<and>
   fst (health_handler p (ThrowSend m) r s)
     = \<lparr>statusCode = 200,
        body = FallbackDoc \<lparr>f_status = ''degraded'', f_error = m, f_timestamp = p_now p\<rparr>\<rparr>"
proof -
  have send: "statusCode (health_send p f x) = 200" for f x
    by (simp add: health_send_def health_fallback_def split: fault.splits)
  have failed: "statusCode (fst (health_probe_failed p f x y z)) = 200" for f x y z
    by (simp add: health_probe_failed_def send case_prod_beta)
  have 2: "statusCode (fst (health_handler_resume p f h r s)) = 200" for f h r s
    by (simp add: health_handler_resume_def send failed split: settled.splits)
  have 3: "(case fst (health_handler_begin p f s) of Replied a \<Rightarrow> statusCode a = 200
            | Waiting _ \<Rightarrow> True)"
    by (simp add: health_handler_begin_def send failed health_fallback_def case_prod_beta Let_def
        split: fault.splits option.splits)
  have 1: "statusCode (fst (health_handler p f r s)) = 200"
  proof (cases "health_handler_begin p f s")
    case (fields k sp s1)
    show ?thesis
    proof (cases k)
      case (Replied a)
      with fields 3 show ?thesis by (simp add: health_handler_def)
    next
      case (Waiting h)
      with fields 2 [of f h r s1] show ?thesis
        by (simp add: health_handler_def case_prod_beta)
    qed
  qed
  have 4: "fst (health_handler p NoFault (Resolved ()) (s\<lparr>isConnected := True, dbClient := Some c\<rparr>))
         = \<lparr>statusCode = 200, body = HealthDoc x\<rparr>"
    if "x = \<lparr>status = ''healthy'', uptime = p_uptime p, timestamp = p_now p,
              database = ''connected'', databaseError = None,
              environment = \<lparr>nodeEnv = NODE_ENV p, port = PORT p,
                dbHost = js_or (PGHOST p) (VITE_AZURE_DB_HOST p),
                dbName = js_or (PGDATABASE p) (VITE_AZURE_DB_NAME p)\<rparr>\<rparr>" for x
    using that by (simp add: health_defs emit_def)
  have 5: "fst (health_handler p NoFault r (s\<lparr>isConnected := False\<rparr>))
         = \<lparr>statusCode = 200, body = HealthDoc (x\<lparr>database := ''disconnected''\<rparr>)\<rparr>"
    if "x = \<lparr>status = ''healthy'', uptime = p_uptime p, timestamp = p_now p,
              database = ''connected'', databaseError = None,
              environment = \<lparr>nodeEnv = NODE_ENV p, port = PORT p,
                dbHost = js_or (PGHOST p) (VITE_AZURE_DB_HOST p),
                dbName = js_or (PGDATABASE p) (VITE_AZURE_DB_NAME p)\<rparr>\<rparr>" for x
    using that by (simp add: health_defs)
  have 6: "fst (health_handler p NoFault (Rejected e) (s\<lparr>isConnected := True, dbClient := Some c\<rparr>))
         = \<lparr>statusCode = 200,
            body = HealthDoc (x\<lparr>database := ''error'', databaseError := Some (err_message e)\<rparr>)\<rparr>"
    if "x = \<lparr>status = ''healthy'', uptime = p_uptime p, timestamp = p_now p,
              database = ''connected'', databaseError = None,
              environment = \<lparr>nodeEnv = NODE_ENV p, port = PORT p,
                dbHost = js_or (PGHOST p) (VITE_AZURE_DB_HOST p),
                dbName = js_or (PGDATABASE p) (VITE_AZURE_DB_NAME p)\<rparr>\<rparr>" for x
    using that by (simp add: health_defs emit_def connectDB_def)
  have 7: "fst (health_handler p (ThrowBuild m) r s)
     = \<lparr>statusCode = 200,
        body = FallbackDoc \<lparr>f_status = ''degraded'', f_error = m, f_timestamp = p_now p\<rparr>\<rparr>"
    by (simp add: health_defs)
  have 8: "fst (health_handler p (ThrowSend m) r s)
     = \<lparr>statusCode = 200,
        body = FallbackDoc \<lparr>f_status = ''degraded'', f_error = m, f_timestamp = p_now p\<rparr>\<rparr>"
    by (simp add: health_defs emit_def case_prod_beta Let_def split: option.splits settled.splits)
  show ?thesis
    unfolding Let_def by (intro conjI 1 2 3 4 5 6 7 8) simp_all
qed

text \<open>
  Claim C10. The \<^verbatim>\<open>status\<close> field of the health answer is \<^verbatim>\<open>healthy\<close> whenever
  the handler does not throw, whatever the state and whatever the probe does, and
  \<^verbatim>\<open>degraded\<close> exactly when it throws. In particular it is \<^verbatim>\<open>healthy\<close> beside
  \<^verbatim>\<open>database: 'disconnected'\<close> and beside \<^verbatim>\<open>database: 'error'\<close>.
\<close>

theorem health_status_field:
  "status_field (body (fst (health_handler p f r s)))
     = Some (if f = NoFault then ''healthy'' else ''degraded'') \<and>
   (case body (fst (health_handler p NoFault r (s\<lparr>isConnected := False\<rparr>))) of
      HealthDoc d \<Rightarrow> status d = ''healthy'' \<and> database d = ''disconnected''
    | _ \<Rightarrow> False) \<and>
   (case body (fst (health_handler p NoFault (Rejected e) (s\<lparr>isConnected := True\<rparr>))) of
      HealthDoc d \<Rightarrow> status d = ''healthy'' \<and> database d = ''error''
    | _ \<Rightarrow> False)"
  by (cases f)
     (simp_all add: health_defs emit_def case_prod_beta Let_def
       split: option.splits settled.splits)

text \<open>
  Claim C9, as stated, fails: \<^verbatim>\<open>shutdown\<close> assigns none of the three variables.
  Started in the state a successful first connect leaves, it ends with the flag still up.
\<close>

theorem shutdown_counterexample:
  "isConnected (snd (shutdown (Resolved ()) connected0))"
  by (simp add: shutdown_def shutdown_begin_def shutdown_resume_def emit_def connected0_def
      initial_def conn_defs)

text \<open>
  Claim C9, amended. \<^verbatim>\<open>shutdown\<close> calls \<^verbatim>\<open>end()\<close> on the client when the variable
  holds one, leaves flag, counter and variable as they were, and ends the process with
  exit status 0, whether the close resolved or was rejected.
\<close>

theorem shutdown_exits:
  "shutdown r s = (Exited 0, s\<lparr>events := events s @ closing_trace s @ [ProcessExit 0]\<rparr>) \<and>
   triple (snd (shutdown r s)) = triple s"
  by (simp add: shutdown_def shutdown_begin_def shutdown_resume_def emit_def closing_trace_def
      triple_def split: option.splits settled.splits)

text \<open>
  The probe where the variable holds a client. In a health request whose handler does
  not throw: when the flag is up and the variable holds client \<open>c\<close>, the first segment
  sends \<^verbatim>\<open>SELECT 1\<close> to \<open>c\<close> and stops; served begin to end, the request adds that
  one query to the trace and nothing else, whatever the probe does. When the probe is
  rejected, the document reads \<^verbatim>\<open>database: 'error'\<close> with the error's message in
  \<^verbatim>\<open>databaseError\<close>, and \<^verbatim>\<open>connectDB\<close> has been called once and not awaited: the
  answer is given in the same segment, from any state. Served with nothing in between,
  that call finds the flag still up and returns at once, so the triple is unchanged.
  When the flag is down, the document reads \<^verbatim>\<open>database: 'disconnected'\<close>, no probe is
  sent and \<^verbatim>\<open>connectDB\<close> is not called.
\<close>

lemma health_probe_with_client:
  "(isConnected s \<and> dbClient s = Some c \<longrightarrow>
      health_handler_begin p NoFault s =
        (Waiting \<lparr>status = ''healthy'', uptime = p_uptime p, timestamp = p_now p,
              database = ''connected'', databaseError = None,
              environment = \<lparr>nodeEnv = NODE_ENV p, port = PORT p,
                dbHost = js_or (PGHOST p) (VITE_AZURE_DB_HOST p),
                dbName = js_or (PGDATABASE p) (VITE_AZURE_DB_NAME p)\<rparr>\<rparr>, [],
         s\<lparr>events := events s @ [QueryCalled c ''SELECT 1'']\<rparr>) \<and>
      events (snd (snd (health_handler p NoFault r s))) = events s @ [QueryCalled c ''SELECT 1''] \<and>
      (case health_handler p NoFault (Rejected e) s of (a, sp, s') \<Rightarrow>
         (case body a of
            HealthDoc d \<Rightarrow> database d = ''error'' \<and> databaseError d = Some (err_message e)
          | _ \<Rightarrow> False) \<and>
         sp = [Returned True] \<and> triple s' = triple s)) \<and>
   health_handler_resume p NoFault h (Rejected e) s =
     (\<lparr>statusCode = 200,
       body = HealthDoc (h\<lparr>database := ''error'', databaseError := Some (err_message e)\<rparr>)\<rparr>,
      [fst (connectDB s)], snd (connectDB s)) \<and>
   (\<not> isConnected s \<longrightarrow>
      (case health_handler p NoFault r s of (a, sp, s') \<Rightarrow>
         (case body a of
            HealthDoc d \<Rightarrow> database d = ''disconnected'' \<and> databaseError d = None
          | _ \<Rightarrow> False) \<and>
         sp = [] \<and> s' = s))"
  by (auto simp add: health_defs emit_def connectDB_def triple_def case_prod_beta
      split: settled.splits)

lemma health_probe_with_client_example:
  "isConnected connected0 \<and> dbClient connected0 = Some 0 \<and> \<not> isConnected initial \<and>
   events (snd (snd (health_handler production NoFault (Rejected reset) connected0)))
     = events connected0 @ [QueryCalled 0 ''SELECT 1''] \<and>
   fst (snd (health_handler production NoFault (Rejected reset) initial)) = [] \<and>
   snd (snd (health_handler production NoFault (Rejected reset) initial)) = initial"
  using health_probe_with_client [where s = connected0 and c = 0 and p = production and r = "Rejected reset"
      and e = reset and h = "\<lparr>status = [], uptime = 0, timestamp = [], database = [],
        databaseError = None,
        environment = \<lparr>nodeEnv = None, port = [], dbHost = None, dbName = None\<rparr>\<rparr>"]
    health_probe_with_client [where s = initial and p = production and r = "Rejected reset"
      and e = reset and c = 0 and h = "\<lparr>status = [], uptime = 0, timestamp = [], database = [],
        databaseError = None,
        environment = \<lparr>nodeEnv = None, port = [], dbHost = None, dbName = None\<rparr>\<rparr>"]
  by (simp add: connected0_def initial_def conn_defs case_prod_beta)

subsection \<open>Two calls of connectDB side by side\<close>

text \<open>
  Nothing in the code keeps a second call of \<^verbatim>\<open>connectDB\<close> from starting while a
  first one is suspended: every \<^verbatim>\<open>catch\<close> block that meets a connection-fatal error
  calls it (line 170), and so does every failed probe (line 111). The states below are
  the ones the segments themselves produce, step by step.
\<close>

lemma both_failed_eq:
  "both_failed = \<lparr>dbClient = Some 0, isConnected = False, connectionRetries = 0, nextClient = 1,
     events = [ClientCreated 0, ConnectCalled 0, ConnectSucceeded 0,
       QueryCalled 0 ''SELECT now()'', QueryCalled 0 ''SELECT now()'',
       EndCalled 0, EndCalled 0]\<rparr>"
  by (simp add: both_failed_def select_now_def query_defs conn_defs connected0_def initial_def
      reset_def)

lemma both_connecting_eq:
  "both_connecting = \<lparr>dbClient = Some 2, isConnected = False, connectionRetries = 0,
     nextClient = 3,
     events = [ClientCreated 0, ConnectCalled 0, ConnectSucceeded 0,
       QueryCalled 0 ''SELECT now()'', QueryCalled 0 ''SELECT now()'',
       EndCalled 0, EndCalled 0,
       ClientCreated 1, ConnectCalled 1, ClientCreated 2, ConnectCalled 2]\<rparr>"
  by (simp add: both_connecting_def both_failed_eq conn_defs numeral_2_eq_2 numeral_3_eq_3)

lemma raced_eq:
  "raced = \<lparr>dbClient = None, isConnected = True, connectionRetries = 0, nextClient = 3,
     events = [ClientCreated 0, ConnectCalled 0, ConnectSucceeded 0,
       QueryCalled 0 ''SELECT now()'', QueryCalled 0 ''SELECT now()'',
       EndCalled 0, EndCalled 0,
       ClientCreated 1, ConnectCalled 1, ClientCreated 2, ConnectCalled 2,
       TimerSet 5000, ConnectSucceeded 2]\<rparr>"
  by (simp add: raced_def both_connecting_eq conn_defs MAX_RETRIES_def RETRY_DELAY_def)

text \<open>
  Each segment used in that run is the one the code was suspended at: both requests
  stop at the query, both \<^verbatim>\<open>catch\<close> blocks leave a call waiting for the close, the
  two calls then wait for the connect of clients 1 and 2, the first goes on to the retry
  timer and the second returns \<^verbatim>\<open>true\<close>.
\<close>

lemma raced_reached:
  "fst (query_handler_begin production select_now connected0) = Waiting () \<and>
   fst (query_handler_begin production select_now
          (snd (snd (query_handler_begin production select_now connected0)))) = Waiting () \<and>
   fst (snd (query_handler_resume production (Rejected reset)
          (snd (snd (query_handler_begin production select_now
            (snd (snd (query_handler_begin production select_now connected0)))))))) =
     [Pending AwaitEnd] \<and>
   fst (snd (query_handler_resume production (Rejected reset)
          (snd (snd (query_handler_resume production (Rejected reset)
            (snd (snd (query_handler_begin production select_now
              (snd (snd (query_handler_begin production select_now connected0))))))))))) =
     [Pending AwaitEnd] \<and>
   fst (connectDB_resume AwaitEnd (Resolved ()) both_failed) = Pending (AwaitConnect 1) \<and>
   fst (connectDB_resume AwaitEnd (Resolved ())
          (snd (connectDB_resume AwaitEnd (Resolved ()) both_failed))) = Pending (AwaitConnect 2) \<and>
   fst (connectDB_resume (AwaitConnect 1) (Rejected refused) both_connecting) = Pending AwaitDelay \<and>
   fst (connectDB_resume (AwaitConnect 2) (Resolved ())
          (snd (connectDB_resume (AwaitConnect 1) (Rejected refused) both_connecting))) =
     Returned True"
  by (simp add: both_connecting_eq both_failed_eq select_now_def query_defs conn_defs
      connected0_def initial_def reset_def MAX_RETRIES_def numeral_2_eq_2)

text \<open>
  Claim C7 does not hold of the code in that state. The later success of the second call
  has raised the flag (line 60) over the variable that the earlier failure of the first
  had emptied (line 73). A health request now finds the flag up, line 103 throws on the
  empty variable before anything is sent, and the inner \<^verbatim>\<open>catch\<close> answers with
  \<^verbatim>\<open>database: 'error'\<close>: the supervisor reports Connected and no liveness query is
  issued, the trace after the request being the trace before it.
\<close>

theorem health_probe_raced:
  "isConnected raced \<and> dbClient raced = None \<and>
   events (snd (snd (health_handler production NoFault (Resolved ()) raced))) = events raced \<and>
   filter network_call (events (snd (snd (health_handler production NoFault (Resolved ()) raced))))
     = filter network_call (events raced) \<and>
   fst (health_handler_begin production NoFault raced) = Replied
     \<lparr>statusCode = 200,
      body = HealthDoc \<lparr>status = ''healthy'', uptime = 42, timestamp = ''2024-01-01T00:00:00.000Z'',
        database = ''error'', databaseError = Some (err_message null_client_error),
        environment = \<lparr>nodeEnv = Some ''production'', port = ''8080'',
          dbHost = Some ''db.example'', dbName = Some ''tenders''\<rparr>\<rparr>\<rparr>"
proof -
  have up: "isConnected raced" and empty: "dbClient raced = None"
    by (simp_all add: raced_eq)
  have call: "connectDB raced = (Returned True, raced)"
    using up by (simp add: connectDB_def)
  have first: "health_handler_begin production NoFault raced =
      (Replied (health_send production NoFault
         \<lparr>status = ''healthy'', uptime = 42, timestamp = ''2024-01-01T00:00:00.000Z'',
          database = ''error'', databaseError = Some (err_message null_client_error),
          environment = \<lparr>nodeEnv = Some ''production'', port = ''8080'',
            dbHost = Some ''db.example'', dbName = Some ''tenders''\<rparr>\<rparr>),
       [Returned True], raced)"
    using up empty
    by (simp add: health_handler_begin_def health_probe_failed_def call production_def js_or_def)
  have whole: "snd (snd (health_handler production NoFault (Resolved ()) raced)) = raced"
    by (simp add: health_handler_def first)
  show ?thesis
    by (simp add: up empty whole first health_send_def)
qed

subsection \<open>The client held while the flag is up\<close>
















end
